theory Spec2Isabelle
  imports Main
begin

section \<open>The transfer driver of \<^verbatim>\<open>data_transfer.py\<close>\<close>

text \<open>
  The program exports a database table to a CSV file or imports a CSV file into a
  table. Everything it does is an effect on three things outside the process: the
  database, the file system and the log. The model threads one record holding these
  three through every call, and every call that can raise returns an \<open>outcome\<close>:
  either a value with the world it leaves, or an exception with the world at the moment
  it was raised.
\<close>

subsection \<open>Values, frames, tables and files\<close>

text \<open>
  A cell is a scalar: a null, a number or a string. Floating-point cells are not
  modelled. A row is the list of its cells, aligned with a list of column names.
\<close>

datatype val = Null | IntV int | StrV string

type_synonym row = "val list"

text \<open>The \<^verbatim>\<open>pandas.DataFrame\<close>: ordered column labels and the rows under them.\<close>

record frame =
  columns :: "string list"
  rows :: "row list"

text \<open>
  A database table: its columns, its rows, and the next value of the key sequence that
  fills a column named \<^verbatim>\<open>id\<close> when an insert does not supply it. The sequence belongs to
  the table's schema, which is not part of this repository; the specification assumes
  a key-generation mechanism of this kind (an auto-increment).
\<close>

record table =
  tcolumns :: "string list"
  trows :: "row list"
  id_seq :: int

text \<open>
  A file is modelled by what the CSV parser recovers from it: a header and the records
  under it, or nothing parsable. The text encoding of cells (quoting, number formats,
  type inference) lies below this model. A file without any column, such as a file of
  zero bytes or of blank lines only, is \<open>Csv [] rs\<close>.
\<close>

datatype content = Csv "string list" "row list" | Malformed

subsection \<open>Exceptions, the log and the world\<close>

text \<open>
  The exception classes that the handlers of the program tell apart, each with the text
  that \<^verbatim>\<open>str(e)\<close> gives. \<open>OtherException\<close> is any other class derived from
  \<^verbatim>\<open>Exception\<close>. Signals of the interpreter that are not derived from
  \<^verbatim>\<open>Exception\<close> (a keyboard interrupt) are outside the model.
\<close>

datatype exn =
    FileNotFoundError string
  | EmptyDataError string
  | ParserError string
  | IntegrityError string
  | OperationalError string
  | OtherException string

fun str :: "exn \<Rightarrow> string" where
  "str (FileNotFoundError m) = m"
| "str (EmptyDataError m) = m"
| "str (ParserError m) = m"
| "str (IntegrityError m) = m"
| "str (OperationalError m) = m"
| "str (OtherException m) = m"

datatype level = INFO | ERROR

type_synonym log_entry = "level \<times> string"

text \<open>
  The calls into the libraries. Any of them can fail for reasons the state of the model
  does not determine (the server is down, a constraint is violated, the disk is full):
  the field \<open>fault\<close> of the world says, for each call, which exception the environment
  makes it raise, if any.
\<close>

datatype call = Connect | Execute | Commit | ReadCsv | ToSql | ReadSqlTable | ToCsv

record world =
  db :: "string \<rightharpoonup> table"
  fs :: "string \<rightharpoonup> content"
  log :: "log_entry list"
  fault :: "call \<Rightarrow> exn option"

datatype 'a outcome = Return 'a world | Raise exn world

fun world_of :: "'a outcome \<Rightarrow> world" where
  "world_of (Return x w) = w"
| "world_of (Raise e w) = w"


text \<open>Sequencing: the second statement runs only if the first one returns.\<close>

definition bind :: "(world \<Rightarrow> 'a outcome) \<Rightarrow> ('a \<Rightarrow> world \<Rightarrow> 'b outcome) \<Rightarrow> world \<Rightarrow> 'b outcome" where
  "bind m f w = (case m w of Return x w' \<Rightarrow> f x w' | Raise e w' \<Rightarrow> Raise e w')"

text \<open>A library call raises what the environment injects, and runs otherwise.\<close>

definition lib_call :: "call \<Rightarrow> (world \<Rightarrow> 'a outcome) \<Rightarrow> world \<Rightarrow> 'a outcome" where
  "lib_call c m w = (case fault w c of Some e \<Rightarrow> Raise e w | None \<Rightarrow> m w)"

definition logger_info :: "string \<Rightarrow> world \<Rightarrow> unit outcome" where
  "logger_info msg w = Return () (w\<lparr>log := log w @ [(INFO, msg)]\<rparr>)"

definition logger_error :: "string \<Rightarrow> world \<Rightarrow> unit outcome" where
  "logger_error msg w = Return () (w\<lparr>log := log w @ [(ERROR, msg)]\<rparr>)"

subsection \<open>Decimal text of a number\<close>

definition digit :: "nat \<Rightarrow> char" where
  "digit d = (''0123456789'' ! d)"

function str_nat :: "nat \<Rightarrow> string" where
  "str_nat n = (if n < 10 then [digit n] else str_nat (n div 10) @ [digit (n mod 10)])"
  by pat_completeness auto
termination
  by (relation "measure id") auto

subsection \<open>The library calls\<close>

text \<open>
  \<^verbatim>\<open>DataFrame.drop(columns=names, errors='ignore')\<close>: the columns with one of the
  labels are removed, with their cells; a label that is not a column is ignored.
\<close>

definition drop_cells :: "string list \<Rightarrow> string list \<Rightarrow> row \<Rightarrow> row" where
  "drop_cells names cols r = map snd (filter (\<lambda>(c, v). c \<notin> set names) (zip cols r))"

definition drop_columns :: "string list \<Rightarrow> frame \<Rightarrow> frame" where
  "drop_columns names df =
     \<lparr>columns = filter (\<lambda>c. c \<notin> set names) (columns df),
      rows = map (drop_cells names (columns df)) (rows df)\<rparr>"

text \<open>
  \<^verbatim>\<open>pandas.read_sql_table\<close>: the whole table as a frame. A table that does not exist is
  a \<^verbatim>\<open>ValueError\<close>. The database is only read.
\<close>

definition read_sql_table :: "string \<Rightarrow> string \<Rightarrow> world \<Rightarrow> frame outcome" where
  "read_sql_table table_name engine =
     lib_call ReadSqlTable (\<lambda>w.
       case db w table_name of
         None \<Rightarrow> Raise (OtherException (''Table '' @ table_name @ '' not found'')) w
       | Some t \<Rightarrow> Return \<lparr>columns = tcolumns t, rows = trows t\<rparr> w)"

text \<open>
  \<^verbatim>\<open>DataFrame.to_csv(path, index=False)\<close>: the header is the column labels, the records
  are the rows, no index column is written, and a file already at the path is replaced.
\<close>

definition to_csv :: "frame \<Rightarrow> string \<Rightarrow> world \<Rightarrow> unit outcome" where
  "to_csv df path =
     lib_call ToCsv (\<lambda>w. Return () (w\<lparr>fs := (fs w)(path \<mapsto> Csv (columns df) (rows df))\<rparr>))"

text \<open>
  \<^verbatim>\<open>pandas.read_csv\<close>: a path without a file is a \<^verbatim>\<open>FileNotFoundError\<close>, a file without
  columns an \<^verbatim>\<open>EmptyDataError\<close>, a file that does not parse a \<^verbatim>\<open>ParserError\<close>. The texts
  of the exceptions that the library calls of this model raise stand for the library's
  own; the program only copies them into the log.
\<close>

definition no_such_file :: "string \<Rightarrow> string" where
  "no_such_file path = ''[Errno 2] No such file or directory: '' @ [CHR 0x27] @ path @ [CHR 0x27]"

definition read_csv :: "string \<Rightarrow> world \<Rightarrow> frame outcome" where
  "read_csv path =
     lib_call ReadCsv (\<lambda>w.
       case fs w path of
         None \<Rightarrow> Raise (FileNotFoundError (no_such_file path)) w
       | Some Malformed \<Rightarrow> Raise (ParserError ''Error tokenizing data'') w
       | Some (Csv header records) \<Rightarrow>
           if header = [] then Raise (EmptyDataError ''No columns to parse from file'') w
           else Return \<lparr>columns = header, rows = records\<rparr> w)"

text \<open>
  A connection works on its own copy of the database; only \<open>commit\<close> makes its changes
  the database's. Leaving the \<^verbatim>\<open>with\<close> block closes the connection, and what was not
  committed is lost with it.
\<close>

type_synonym connection = "string \<rightharpoonup> table"

definition engine_connect :: "string \<Rightarrow> world \<Rightarrow> connection outcome" where
  "engine_connect engine = lib_call Connect (\<lambda>w. Return (db w) w)"

text \<open>\<^verbatim>\<open>DELETE FROM t;\<close> removes every row of the table and leaves its key sequence.\<close>

definition execute_delete :: "string \<Rightarrow> connection \<Rightarrow> world \<Rightarrow> connection outcome" where
  "execute_delete table_name conn =
     lib_call Execute (\<lambda>w.
       case conn table_name of
         None \<Rightarrow> Raise (OtherException (''relation '' @ table_name @ '' does not exist'')) w
       | Some t \<Rightarrow> Return (conn(table_name \<mapsto> t\<lparr>trows := []\<rparr>)) w)"

definition commit :: "connection \<Rightarrow> world \<Rightarrow> unit outcome" where
  "commit conn = lib_call Commit (\<lambda>w. Return () (w\<lparr>db := conn\<rparr>))"

text \<open>
  The row an \<^verbatim>\<open>INSERT\<close> stores: under each column of the table the cell the frame has for
  it; a column the frame lacks gets its default, the next key for \<^verbatim>\<open>id\<close> and null
  otherwise.
\<close>

definition cell :: "string list \<Rightarrow> row \<Rightarrow> string \<Rightarrow> val option" where
  "cell cols r c = map_of (zip cols r) c"

definition insert_row :: "string list \<Rightarrow> string list \<Rightarrow> int \<Rightarrow> row \<Rightarrow> row" where
  "insert_row tcols fcols key r =
     map (\<lambda>c. case cell fcols r c of
                 Some v \<Rightarrow> v
               | None \<Rightarrow> if c = ''id'' then IntV key else Null) tcols"

fun insert_rows :: "string list \<Rightarrow> string list \<Rightarrow> int \<Rightarrow> row list \<Rightarrow> row list" where
  "insert_rows tcols fcols key [] = []"
| "insert_rows tcols fcols key (r # rs) =
     insert_row tcols fcols key r # insert_rows tcols fcols (key + 1) rs"

text \<open>
  \<^verbatim>\<open>DataFrame.to_sql(name, engine, if_exists='append', index=False)\<close>, in a transaction of
  its own: the rows are added to the table all together or not at all. A missing table is
  created from the frame. A row for a column the table does not have is an error of the
  database that is neither an integrity nor an operational error.
\<close>

definition to_sql :: "frame \<Rightarrow> string \<Rightarrow> string \<Rightarrow> world \<Rightarrow> unit outcome" where
  "to_sql df table_name engine =
     lib_call ToSql (\<lambda>w.
       case db w table_name of
         None \<Rightarrow>
           Return () (w\<lparr>db := (db w)(table_name \<mapsto>
             \<lparr>tcolumns = columns df, trows = rows df, id_seq = 1\<rparr>)\<rparr>)
       | Some t \<Rightarrow>
           if rows df \<noteq> [] \<and> \<not> set (columns df) \<subseteq> set (tcolumns t)
           then Raise (OtherException ''column of relation does not exist'') w
           else Return () (w\<lparr>db := (db w)(table_name \<mapsto>
             t\<lparr>trows := trows t @ insert_rows (tcolumns t) (columns df) (id_seq t) (rows df),
               id_seq := id_seq t + int (length (rows df))\<rparr>)\<rparr>))"

subsection \<open>The program\<close>

text \<open>\<^verbatim>\<open>get_db_connection\<close>: the engine is the URL; nothing is connected yet.\<close>

definition get_db_connection :: "string \<Rightarrow> string \<Rightarrow> string \<Rightarrow> string \<Rightarrow> string \<Rightarrow> string" where
  "get_db_connection db_user db_password db_host db_port db_name =
     ''postgresql://'' @ db_user @ '':'' @ db_password @ ''@'' @ db_host @ '':'' @ db_port
       @ ''/'' @ db_name"

text \<open>The body of the \<^verbatim>\<open>try\<close> of \<^verbatim>\<open>export_to_csv\<close>, lines 19 to 22.\<close>

definition export_try :: "string \<Rightarrow> string \<Rightarrow> string \<Rightarrow> world \<Rightarrow> unit outcome" where
  "export_try engine table_name csv_file_path =
     bind (read_sql_table table_name engine) (\<lambda>df.
     let df = drop_columns [''id''] df in
     bind (to_csv df csv_file_path) (\<lambda>_.
     logger_info (''Data exported successfully to '' @ csv_file_path @ ''.'')))"

text \<open>\<^verbatim>\<open>export_to_csv\<close>: the one handler, \<^verbatim>\<open>except Exception as e\<close>, takes every exception.\<close>

definition export_to_csv :: "string \<Rightarrow> string \<Rightarrow> string \<Rightarrow> world \<Rightarrow> unit outcome" where
  "export_to_csv engine table_name csv_file_path w =
     (case export_try engine table_name csv_file_path w of
        Return x w' \<Rightarrow> Return x w'
      | Raise e w' \<Rightarrow> logger_error (''Error exporting data: '' @ str e) w')"

text \<open>The \<^verbatim>\<open>with\<close> block of \<^verbatim>\<open>import_from_csv\<close>, lines 29 to 32.\<close>

definition clear_table :: "string \<Rightarrow> string \<Rightarrow> world \<Rightarrow> unit outcome" where
  "clear_table engine table_name =
     bind (engine_connect engine) (\<lambda>connection.
     bind (execute_delete table_name connection) (\<lambda>connection.
     bind (commit connection) (\<lambda>_.
     logger_info ''Table cleared successfully.'')))"

text \<open>The body of the \<^verbatim>\<open>try\<close> of \<^verbatim>\<open>import_from_csv\<close>, lines 29 to 37.\<close>

definition import_try :: "string \<Rightarrow> string \<Rightarrow> string \<Rightarrow> world \<Rightarrow> unit outcome" where
  "import_try engine table_name csv_file_path =
     bind (clear_table engine table_name) (\<lambda>_.
     bind (read_csv csv_file_path) (\<lambda>df.
     let df = drop_columns [''id''] df in
     bind (to_sql df table_name engine) (\<lambda>_.
     logger_info (''Data uploaded successfully! '' @ str_nat (length (rows df))
                    @ '' records imported.''))))"

text \<open>The six \<^verbatim>\<open>except\<close> clauses of \<^verbatim>\<open>import_from_csv\<close>, in their order.\<close>

fun import_except :: "string \<Rightarrow> exn \<Rightarrow> world \<Rightarrow> unit outcome" where
  "import_except csv_file_path (FileNotFoundError m) =
     logger_error (''The file '' @ csv_file_path @ '' was not found.'')"
| "import_except csv_file_path (EmptyDataError m) = logger_error ''The file is empty.''"
| "import_except csv_file_path (ParserError m) = logger_error ''The file could not be parsed.''"
| "import_except csv_file_path (IntegrityError m) =
     logger_error (''Integrity error during import: '' @ m)"
| "import_except csv_file_path (OperationalError m) =
     logger_error (''Database connection error: '' @ m)"
| "import_except csv_file_path e = logger_error (''Error importing data: '' @ str e)"

definition import_from_csv :: "string \<Rightarrow> string \<Rightarrow> string \<Rightarrow> world \<Rightarrow> unit outcome" where
  "import_from_csv engine table_name csv_file_path w =
     (case import_try engine table_name csv_file_path w of
        Return x w' \<Rightarrow> Return x w'
      | Raise e w' \<Rightarrow> import_except csv_file_path e w')"

text \<open>The arguments as \<^verbatim>\<open>parse_args\<close> returns them; \<^verbatim>\<open>--csv_file\<close> may be absent.\<close>

record args =
  operation :: string
  table_name :: string
  csv_file :: "string option"
  db_user :: string
  db_password :: string
  db_host :: string
  db_port :: string
  db_name :: string

text \<open>Python's \<^verbatim>\<open>not x\<close> on an optional string: true of \<^verbatim>\<open>None\<close> and of the empty string.\<close>

fun not_str :: "string option \<Rightarrow> bool" where
  "not_str None = True"
| "not_str (Some s) = (s = [])"

definition main :: "args \<Rightarrow> world \<Rightarrow> unit outcome" where
  "main a w =
     (let engine = get_db_connection (db_user a) (db_password a) (db_host a) (db_port a) (db_name a)
      in if operation a = ''export''
         then export_to_csv engine (table_name a) (table_name a @ ''.csv'') w
         else if operation a = ''import''
         then (if not_str (csv_file a)
               then logger_error ''CSV file path is required for import.'' w
               else import_from_csv engine (table_name a) (the (csv_file a)) w)
         else Return () w)"

subsection \<open>What the properties speak of\<close>

text \<open>The error lines of the log: what the program reports as failures.\<close>

definition errors :: "world \<Rightarrow> log_entry list" where
  "errors w = filter (\<lambda>entry. fst entry = ERROR) (log w)"



text \<open>The six failure categories of an import, and the message of each.\<close>

datatype category =
  SourceMissing | SourceEmpty | SourceUnparsable | IntegrityViolation | DatabaseFailure | CatchAll

fun category_of :: "exn \<Rightarrow> category" where
  "category_of (FileNotFoundError m) = SourceMissing"
| "category_of (EmptyDataError m) = SourceEmpty"
| "category_of (ParserError m) = SourceUnparsable"
| "category_of (IntegrityError m) = IntegrityViolation"
| "category_of (OperationalError m) = DatabaseFailure"
| "category_of (OtherException m) = CatchAll"

fun category_message :: "category \<Rightarrow> string \<Rightarrow> string \<Rightarrow> string" where
  "category_message SourceMissing path text = ''The file '' @ path @ '' was not found.''"
| "category_message SourceEmpty path text = ''The file is empty.''"
| "category_message SourceUnparsable path text = ''The file could not be parsed.''"
| "category_message IntegrityViolation path text = ''Integrity error during import: '' @ text"
| "category_message DatabaseFailure path text = ''Database connection error: '' @ text"
| "category_message CatchAll path text = ''Error importing data: '' @ text"

subsection \<open>A concrete run: the table \<^verbatim>\<open>orders(id, sku, qty)\<close> with one row\<close>

definition no_fault :: "call \<Rightarrow> exn option" where
  "no_fault c = None"

definition orders :: table where
  "orders = \<lparr>tcolumns = [''id'', ''sku'', ''qty''],
             trows = [[IntV 1, StrV ''X1'', IntV 5]], id_seq = 2\<rparr>"

definition orders_world :: world where
  "orders_world = \<lparr>db = [''orders'' \<mapsto> orders], fs = Map.empty, log = [], fault = no_fault\<rparr>"

definition cli :: "string \<Rightarrow> string option \<Rightarrow> args" where
  "cli op path = \<lparr>operation = op, table_name = ''orders'', csv_file = path, db_user = ''u'',
     db_password = ''p'', db_host = ''localhost'', db_port = ''5432'', db_name = ''mydb''\<rparr>"

section \<open>Properties\<close>

subsection \<open>Dropping and inserting cells\<close>











subsection \<open>The operations, step by step\<close>

lemma export_try_eq:
  "export_try eng t p w =
     (case fault w ReadSqlTable of Some e \<Rightarrow> Raise e w | None \<Rightarrow>
      (case db w t of None \<Rightarrow> Raise (OtherException (''Table '' @ t @ '' not found'')) w | Some tab \<Rightarrow>
      (case fault w ToCsv of Some e \<Rightarrow> Raise e w | None \<Rightarrow>
        Return () (w\<lparr>fs := (fs w)(p \<mapsto> Csv (filter (\<lambda>c. c \<notin> set [''id'']) (tcolumns tab))
                                          (map (drop_cells [''id''] (tcolumns tab)) (trows tab))),
                     log := log w @ [(INFO, ''Data exported successfully to '' @ p @ ''.'')]\<rparr>))))"
  by (simp add: export_try_def bind_def read_sql_table_def lib_call_def to_csv_def logger_info_def
      drop_columns_def Let_def split: option.splits)

lemma clear_table_eq:
  "clear_table eng t w =
     (case fault w Connect of Some e \<Rightarrow> Raise e w | None \<Rightarrow>
      (case fault w Execute of Some e \<Rightarrow> Raise e w | None \<Rightarrow>
      (case db w t of None \<Rightarrow> Raise (OtherException (''relation '' @ t @ '' does not exist'')) w | Some tab \<Rightarrow>
      (case fault w Commit of Some e \<Rightarrow> Raise e w | None \<Rightarrow>
        Return () (w\<lparr>db := (db w)(t \<mapsto> tab\<lparr>trows := []\<rparr>),
                     log := log w @ [(INFO, ''Table cleared successfully.'')]\<rparr>)))))"
  by (simp add: clear_table_def bind_def engine_connect_def execute_delete_def commit_def
      lib_call_def logger_info_def split: option.splits)


lemma import_except_eq:
  "import_except p e w =
     Return () (w\<lparr>log := log w @ [(ERROR, category_message (category_of e) p (str e))]\<rparr>)"
  by (cases e) (simp_all add: logger_error_def)



lemma read_csv_eq:
  "read_csv p w =
     (case fault w ReadCsv of Some e \<Rightarrow> Raise e w | None \<Rightarrow>
      (case fs w p of
         None \<Rightarrow> Raise (FileNotFoundError (no_such_file p)) w
       | Some Malformed \<Rightarrow> Raise (ParserError ''Error tokenizing data'') w
       | Some (Csv header records) \<Rightarrow>
           if header = [] then Raise (EmptyDataError ''No columns to parse from file'') w
           else Return \<lparr>columns = header, rows = records\<rparr> w))"
  by (simp add: read_csv_def lib_call_def)

lemma read_csv_world: "read_csv p w = Raise e w' \<Longrightarrow> w' = w"
  by (auto simp: read_csv_eq split: option.splits content.splits if_splits)

lemma read_csv_world_ok: "read_csv p w = Return df w' \<Longrightarrow> w' = w"
  by (auto simp: read_csv_eq split: option.splits content.splits if_splits)

lemma to_sql_world: "to_sql df t eng w = Raise e w' \<Longrightarrow> w' = w"
  by (auto simp: to_sql_def lib_call_def split: option.splits if_splits)

lemma clear_table_raise: "clear_table eng t w = Raise e w' \<Longrightarrow> w' = w"
  by (auto simp: clear_table_eq split: option.splits)

lemma clear_table_return:
  "clear_table eng t w = Return x w' \<Longrightarrow>
   \<exists>tab. db w t = Some tab \<and>
     w' = w\<lparr>db := (db w)(t \<mapsto> tab\<lparr>trows := []\<rparr>),
            log := log w @ [(INFO, ''Table cleared successfully.'')]\<rparr>"
  by (auto simp: clear_table_eq split: option.splits)

lemma import_try_eq:
  "import_try eng t p w =
     (case clear_table eng t w of Raise e w' \<Rightarrow> Raise e w' | Return x w1 \<Rightarrow>
      (case read_csv p w1 of Raise e w' \<Rightarrow> Raise e w' | Return df w2 \<Rightarrow>
      (case to_sql (drop_columns [''id''] df) t eng w2 of Raise e w' \<Rightarrow> Raise e w' | Return y w3 \<Rightarrow>
         Return () (w3\<lparr>log := log w3 @ [(INFO, ''Data uploaded successfully! ''
            @ str_nat (length (rows (drop_columns [''id''] df))) @ '' records imported.'')]\<rparr>))))"
  by (simp add: import_try_def bind_def Let_def logger_info_def split: outcome.splits)

lemma import_try_raise:
  assumes "import_try eng t p w = Raise e w1"
  shows "w1 = w \<or> clear_table eng t w = Return () w1"
proof (cases "clear_table eng t w")
  case (Raise e' w')
  then show ?thesis using assms clear_table_raise [OF Raise] by (simp add: import_try_eq)
next
  case c: (Return x w')
  show ?thesis
  proof (cases "read_csv p w'")
    case (Raise e' w'')
    then show ?thesis using assms c read_csv_world [OF Raise] by (simp add: import_try_eq)
  next
    case r: (Return df w'')
    then have w'': "w'' = w'" by (rule read_csv_world_ok)
    show ?thesis
    proof (cases "to_sql (drop_columns [''id''] df) t eng w''")
      case (Raise e' w3)
      then show ?thesis using assms c r w'' to_sql_world [OF Raise] by (simp add: import_try_eq)
    next
      case (Return y w3)
      then show ?thesis using assms c r by (simp add: import_try_eq)
    qed
  qed
qed

lemma import_try_raise_errors:
  assumes "import_try eng t p w = Raise e w1"
  shows "errors w1 = errors w"
  using import_try_raise [OF assms]
proof
  assume "clear_table eng t w = Return () w1"
  from clear_table_return [OF this] show ?thesis by (auto simp: errors_def)
qed simp

lemma not_found_differs:
  "p @ '' was not found.'' \<noteq> ''is empty.''" "p @ '' was not found.'' \<noteq> ''could not be parsed.''"
proof -
  have "rev (p @ '' was not found.'') \<noteq> rev ''is empty.''" by simp
  then show "p @ '' was not found.'' \<noteq> ''is empty.''" by metis
  have "rev (p @ '' was not found.'') \<noteq> rev ''could not be parsed.''" by simp
  then show "p @ '' was not found.'' \<noteq> ''could not be parsed.''" by metis
qed

lemma category_message_inj:
  "category_message c p text = category_message c' p text' \<Longrightarrow> c = c'"
  using not_found_differs [of p] not_found_differs [of p, symmetric]
  by (cases c; cases c') simp_all

subsection \<open>Import without a CSV path\<close>





subsection \<open>Export\<close>

text \<open>
  C9. An export leaves the database as it found it, whether it succeeds or fails: it
  reads the table and writes a file, and no call it makes changes a table.
\<close>

theorem export_leaves_database:
  "db (world_of (export_to_csv eng t p w)) = db w \<and>
   db (world_of (main (a\<lparr>operation := ''export''\<rparr>) w)) = db w"
  by (simp add: main_def export_to_csv_def export_try_eq logger_error_def split: option.splits)

theorem export_leaves_database_witness:
  "db (world_of (export_to_csv ''e'' ''orders'' ''orders.csv'' orders_world)) = db orders_world \<and>
   db (world_of (main (cli ''export'' None) orders_world)) = db orders_world \<and>
   fs (world_of (main (cli ''export'' None) orders_world)) ''orders.csv'' =
     Some (Csv [''sku'', ''qty''] [[StrV ''X1'', IntV 5]])"
proof -
  have "fs (world_of (main (cli ''export'' None) orders_world)) ''orders.csv'' =
     Some (Csv [''sku'', ''qty''] [[StrV ''X1'', IntV 5]])"
    by (simp add: main_def cli_def export_to_csv_def export_try_eq orders_world_def no_fault_def
        orders_def drop_cells_def)
  then show ?thesis
    using export_leaves_database [of "''e''" "''orders''" "''orders.csv''" orders_world
        "cli ''export'' None"]
    by (simp add: cli_def)
qed

subsection \<open>Exceptions do not leave the operations\<close>



subsection \<open>Import failures\<close>

lemma import_try_read_fails:
  assumes "clear_table eng t w = Return () w1" "read_csv p w1 = Raise e w2"
  shows "import_try eng t p w = Raise e w1"
  using assms read_csv_world [OF assms(2)] by (simp add: import_try_eq)

text \<open>
  C6. When an import fails, the exception falls into exactly one of six categories, and
  the operation ends by logging the message of that category and nothing more: the
  result is the world in which the exception was raised with one error line added, so
  no call is tried again. No error line was logged before the handler ran, and the
  message belongs to no other category.
\<close>

theorem import_failure_categories:
  assumes "import_try eng t p w = Raise e w1"
  shows "import_from_csv eng t p w =
           Return () (w1\<lparr>log := log w1 @ [(ERROR, category_message (category_of e) p (str e))]\<rparr>) \<and>
         errors (world_of (import_from_csv eng t p w)) =
           errors w @ [(ERROR, category_message (category_of e) p (str e))] \<and>
         (\<forall>c text. category_message c p text = category_message (category_of e) p (str e)
            \<longrightarrow> c = category_of e)"
proof -
  have r: "import_from_csv eng t p w =
           Return () (w1\<lparr>log := log w1 @ [(ERROR, category_message (category_of e) p (str e))]\<rparr>)"
    using assms by (simp add: import_from_csv_def import_except_eq)
  have "errors (w1\<lparr>log := log w1 @ [(ERROR, category_message (category_of e) p (str e))]\<rparr>) =
          errors w @ [(ERROR, category_message (category_of e) p (str e))]"
    using import_try_raise_errors [OF assms] by (simp add: errors_def)
  then show ?thesis using r category_message_inj by auto
qed

theorem import_failure_categories_witness:
  "import_try ''e'' ''orders'' ''missing.csv'' orders_world =
     Raise (FileNotFoundError (no_such_file ''missing.csv''))
       (orders_world\<lparr>db := [''orders'' \<mapsto> orders\<lparr>trows := []\<rparr>],
                      log := [(INFO, ''Table cleared successfully.'')]\<rparr>) \<and>
   errors (world_of (import_from_csv ''e'' ''orders'' ''missing.csv'' orders_world)) =
     [(ERROR, ''The file missing.csv was not found.'')]"
proof -
  have r: "import_try ''e'' ''orders'' ''missing.csv'' orders_world =
     Raise (FileNotFoundError (no_such_file ''missing.csv''))
       (orders_world\<lparr>db := [''orders'' \<mapsto> orders\<lparr>trows := []\<rparr>],
                      log := [(INFO, ''Table cleared successfully.'')]\<rparr>)"
    by (simp add: import_try_eq clear_table_eq read_csv_eq orders_world_def no_fault_def)
  show ?thesis
    using r import_failure_categories [OF r] by (simp add: errors_def orders_world_def)
qed

text \<open>
  C8. The import clears the table, and commits that, before it reads the CSV file. So
  when the table was cleared and the file then turns out to be missing, without columns
  or unparsable, the operation ends with the table empty: its former rows are gone,
  none has been added, and the log holds the line of the cleared table followed by one
  error line.
\<close>

theorem delete_precedes_read:
  assumes "db w t = Some tab"
    and "fault w Connect = None" "fault w Execute = None" "fault w Commit = None"
    and "fault w ReadCsv = None"
    and "fs w p = None \<or> (\<exists>rs. fs w p = Some (Csv [] rs)) \<or> fs w p = Some Malformed"
  shows "import_from_csv eng t p w =
           Return () (w\<lparr>db := (db w)(t \<mapsto> tab\<lparr>trows := []\<rparr>),
                        log := log w @ [(INFO, ''Table cleared successfully.''),
                          (ERROR, if fs w p = None then ''The file '' @ p @ '' was not found.''
                                  else if fs w p = Some Malformed then ''The file could not be parsed.''
                                  else ''The file is empty.'')]\<rparr>)"
proof -
  let ?w1 = "w\<lparr>db := (db w)(t \<mapsto> tab\<lparr>trows := []\<rparr>),
               log := log w @ [(INFO, ''Table cleared successfully.'')]\<rparr>"
  have c: "clear_table eng t w = Return () ?w1"
    using assms(1-4) by (simp add: clear_table_eq)
  have "\<exists>e. read_csv p ?w1 = Raise e ?w1 \<and>
          category_message (category_of e) p (str e) =
            (if fs w p = None then ''The file '' @ p @ '' was not found.''
             else if fs w p = Some Malformed then ''The file could not be parsed.''
             else ''The file is empty.'')"
    using assms(5,6) by (auto simp: read_csv_eq)
  then obtain e where e: "read_csv p ?w1 = Raise e ?w1"
    and m: "category_message (category_of e) p (str e) =
            (if fs w p = None then ''The file '' @ p @ '' was not found.''
             else if fs w p = Some Malformed then ''The file could not be parsed.''
             else ''The file is empty.'')" by blast
  from c e have "import_try eng t p w = Raise e ?w1"
    by (rule import_try_read_fails)
  then have "import_from_csv eng t p w =
      Return () (?w1\<lparr>log := log ?w1 @ [(ERROR, category_message (category_of e) p (str e))]\<rparr>)"
    by (simp add: import_from_csv_def import_except_eq)
  then show ?thesis unfolding m by simp
qed

theorem delete_precedes_read_witness:
  "main (cli ''import'' (Some ''empty.csv'')) (orders_world\<lparr>fs := [''empty.csv'' \<mapsto> Csv [] []]\<rparr>) =
     Return () (orders_world\<lparr>fs := [''empty.csv'' \<mapsto> Csv [] []],
                  db := [''orders'' \<mapsto> orders\<lparr>trows := []\<rparr>],
                  log := [(INFO, ''Table cleared successfully.''), (ERROR, ''The file is empty.'')]\<rparr>)"
proof -
  let ?w = "orders_world\<lparr>fs := [''empty.csv'' \<mapsto> Csv [] []]\<rparr>"
  have "import_from_csv ''postgresql://u:p@localhost:5432/mydb'' ''orders'' ''empty.csv'' ?w =
           Return () (?w\<lparr>db := (db ?w)(''orders'' \<mapsto> orders\<lparr>trows := []\<rparr>),
                        log := log ?w @ [(INFO, ''Table cleared successfully.''),
                          (ERROR, if fs ?w ''empty.csv'' = None
                                  then ''The file '' @ ''empty.csv'' @ '' was not found.''
                                  else if fs ?w ''empty.csv'' = Some Malformed
                                  then ''The file could not be parsed.''
                                  else ''The file is empty.'')]\<rparr>)"
    by (rule delete_precedes_read) (simp_all add: orders_world_def no_fault_def)
  then show ?thesis
    by (simp add: main_def cli_def get_db_connection_def orders_world_def)
qed

text \<open>
  C1, as the program has it. When the CSV file does not exist and the table could be
  cleared, the import logs the file-not-found message and adds no row, but the table has
  been emptied by then: every row that was in it is deleted.
\<close>

theorem import_missing_file:
  assumes "clear_table eng t w = Return () w1" "fs w p = None" "fault w ReadCsv = None"
  shows "import_from_csv eng t p w =
           Return () (w1\<lparr>log := log w1 @ [(ERROR, ''The file '' @ p @ '' was not found.'')]\<rparr>) \<and>
         (\<exists>tab. db w t = Some tab \<and> db w1 = (db w)(t \<mapsto> tab\<lparr>trows := []\<rparr>)) \<and>
         fs w1 = fs w \<and> log w1 = log w @ [(INFO, ''Table cleared successfully.'')]"
proof -
  obtain tab where tab: "db w t = Some tab" and w1: "w1 = w\<lparr>db := (db w)(t \<mapsto> tab\<lparr>trows := []\<rparr>),
            log := log w @ [(INFO, ''Table cleared successfully.'')]\<rparr>"
    using clear_table_return [OF assms(1)] by blast
  have "read_csv p w1 =
          Raise (FileNotFoundError (no_such_file p)) w1"
    using assms(2,3) by (simp add: read_csv_eq w1)
  with assms(1) have "import_try eng t p w =
          Raise (FileNotFoundError (no_such_file p)) w1"
    by (rule import_try_read_fails)
  then show ?thesis using tab by (simp add: import_from_csv_def logger_error_def w1)
qed

theorem import_missing_file_witness:
  "clear_table ''e'' ''orders'' orders_world =
     Return () (orders_world\<lparr>db := [''orders'' \<mapsto> orders\<lparr>trows := []\<rparr>],
                             log := [(INFO, ''Table cleared successfully.'')]\<rparr>) \<and>
   import_from_csv ''e'' ''orders'' ''missing.csv'' orders_world =
     Return () (orders_world\<lparr>db := [''orders'' \<mapsto> orders\<lparr>trows := []\<rparr>],
        log := [(INFO, ''Table cleared successfully.''),
                (ERROR, ''The file missing.csv was not found.'')]\<rparr>)"
proof -
  have c: "clear_table ''e'' ''orders'' orders_world =
     Return () (orders_world\<lparr>db := [''orders'' \<mapsto> orders\<lparr>trows := []\<rparr>],
                             log := [(INFO, ''Table cleared successfully.'')]\<rparr>)"
    by (simp add: clear_table_eq orders_world_def no_fault_def)
  have f: "fs orders_world ''missing.csv'' = None" "fault orders_world ReadCsv = None"
    by (simp_all add: orders_world_def no_fault_def)
  show ?thesis using c import_missing_file [OF c f] by (simp add: orders_world_def)
qed

text \<open>
  C1, as the specification has it, fails. The table \<^verbatim>\<open>orders\<close> holds one row and there is
  no file \<^verbatim>\<open>missing.csv\<close>: after the import the file-not-found message is in the log and
  the table is not what it was, its row has been deleted. And when the server cannot be
  reached, the same command logs the connection error and no file-not-found message.
\<close>

theorem import_missing_file_counterexample:
  "fs orders_world ''missing.csv'' = None \<and>
   db orders_world ''orders'' = Some orders \<and>
   trows orders = [[IntV 1, StrV ''X1'', IntV 5]] \<and>
   main (cli ''import'' (Some ''missing.csv'')) orders_world =
     Return () (orders_world\<lparr>db := [''orders'' \<mapsto> orders\<lparr>trows := []\<rparr>],
        log := [(INFO, ''Table cleared successfully.''),
                (ERROR, ''The file missing.csv was not found.'')]\<rparr>) \<and>
   db (world_of (main (cli ''import'' (Some ''missing.csv'')) orders_world)) ''orders''
     \<noteq> db orders_world ''orders'' \<and>
   main (cli ''import'' (Some ''missing.csv''))
       (orders_world\<lparr>fault := no_fault(Connect := Some (OperationalError ''connection refused''))\<rparr>) =
     Return () (orders_world\<lparr>fault := no_fault(Connect := Some (OperationalError ''connection refused'')),
        log := [(ERROR, ''Database connection error: connection refused'')]\<rparr>)"
  by (simp add: main_def cli_def import_from_csv_def import_try_eq clear_table_eq read_csv_eq
      orders_world_def orders_def no_fault_def logger_error_def)

subsection \<open>Successful runs\<close>








subsection \<open>Import replaces the rows\<close>



subsection \<open>Export, then import\<close>





end
